theory Spec2Isabelle
  imports Main
begin

section \<open>The pipeline base class of modelscope/pipelines/base.py\<close>

text \<open>
  The module defines the abstract class \<open>Pipeline\<close>: a constructor that resolves the model
  argument, the entry point \<open>__call__\<close> that dispatches on the shape of its input, the
  single-item path \<open>_process_single\<close>, the output check \<open>_check_output\<close> and the default
  \<open>preprocess\<close> and \<open>forward\<close>.  Everything else (the hub, the model classes, the
  preprocessors, the datasets, the configuration parser, the table \<open>TASK_OUTPUTS\<close>) is
  imported from modules that are not part of this file; those enter the embedding as the
  fields of an environment record.
\<close>

subsection \<open>Python values\<close>

text \<open>
  The values that reach the class: \<open>None\<close>, booleans, integers, strings, lists, tuples,
  dictionaries with string keys, instances of \<open>Model\<close> (an object identity), instances of
  \<open>PyDataset\<close> (the finite sequence of items that iterating the dataset yields) and
  instances of any other class (an object identity).
\<close>

datatype pyval =
    PNone
  | PBool bool
  | PInt int
  | PStr string
  | PList "pyval list"
  | PTuple "pyval list"
  | PDict "(string \<times> pyval) list"
  | PModel nat
  | PDataset "pyval list"
  | PObject nat

text \<open>Keyword arguments \<open>**kwargs\<close> and result dictionaries, keys in insertion order.\<close>

type_synonym params = "(string \<times> pyval) list"
type_synonym outdict = "(string \<times> pyval) list"

text \<open>\<open>isinstance(v, str)\<close>, \<open>isinstance(v, Model)\<close>, \<open>isinstance(v, List)\<close>,
  \<open>isinstance(v, PyDataset)\<close>.\<close>

fun isinstance_str :: "pyval \<Rightarrow> bool" where
  "isinstance_str (PStr s) = True"
| "isinstance_str v = False"

fun isinstance_Model :: "pyval \<Rightarrow> bool" where
  "isinstance_Model (PModel i) = True"
| "isinstance_Model v = False"

fun isinstance_list :: "pyval \<Rightarrow> bool" where
  "isinstance_list (PList xs) = True"
| "isinstance_list v = False"

fun isinstance_PyDataset :: "pyval \<Rightarrow> bool" where
  "isinstance_PyDataset (PDataset ds) = True"
| "isinstance_PyDataset v = False"

text \<open>Python's truth value of an object, as \<open>if model and ...\<close> tests it.\<close>

fun truthy :: "pyval \<Rightarrow> bool" where
  "truthy PNone = False"
| "truthy (PBool b) = b"
| "truthy (PInt i) = (i \<noteq> 0)"
| "truthy (PStr s) = (s \<noteq> [])"
| "truthy (PList xs) = (xs \<noteq> [])"
| "truthy (PTuple xs) = (xs \<noteq> [])"
| "truthy (PDict kvs) = (kvs \<noteq> [])"
| "truthy (PModel i) = True"
| "truthy (PDataset ds) = True"
| "truthy (PObject i) = True"

text \<open>The name of \<open>type(v)\<close>, which the invalid-type message prints.\<close>

fun type_name :: "pyval \<Rightarrow> string" where
  "type_name PNone = ''NoneType''"
| "type_name (PBool b) = ''bool''"
| "type_name (PInt i) = ''int''"
| "type_name (PStr s) = ''str''"
| "type_name (PList xs) = ''list''"
| "type_name (PTuple xs) = ''tuple''"
| "type_name (PDict kvs) = ''dict''"
| "type_name (PModel i) = ''Model''"
| "type_name (PDataset ds) = ''PyDataset''"
| "type_name (PObject i) = ''object''"

subsection \<open>Exceptions, the log and the world\<close>

text \<open>
  Every \<open>raise\<close>, failed \<open>assert\<close> and failed attribute access of the file is a value of
  \<open>error\<close>.  \<open>ValueError_model_type t\<close> is the error of \<open>initiate_single_model\<close> (with the
  type name it prints), \<open>ValueError_missing_keys expected missing\<close> the error of
  \<open>_check_output\<close> (with the two lists it prints).  \<open>Raised n\<close> is an exception coming out
  of a collaborator.  \<open>RuntimeError_generator_raised_StopIteration\<close> is what the interpreter
  raises in place of a \<open>StopIteration\<close> that leaves the body of a generator.
\<close>

datatype error =
    ValueError_model_type string
  | ValueError_missing_keys "string list" "string list"
  | AssertionError string
  | AttributeError string
  | TypeError_not_callable
  | StopIteration
  | RuntimeError_generator_raised_StopIteration
  | Raised nat

text \<open>The two calls of the logger: \<open>logger.info(f'initiate model from {model}')\<close> and
  \<open>logger.warning(f'task {task_name} output keys are missing')\<close>.\<close>

datatype logentry =
    Info_initiate_model pyval
  | Warning_output_keys_missing string

text \<open>The world outside the pipeline object: what has been logged, and the state \<open>ext\<close> of
  the collaborators (file system, hub, model internals).\<close>

record 'x world =
  logged :: "logentry list"
  ext :: 'x

text \<open>A Python computation runs in a world and ends by returning a value or by raising; the
  world it leaves behind is kept in both cases.\<close>

type_synonym ('a, 'x) M = "'x world \<Rightarrow> (error + 'a) \<times> 'x world"

definition returnM :: "'a \<Rightarrow> ('a, 'x) M" where
  "returnM a = (\<lambda>w. (Inr a, w))"

definition raiseM :: "error \<Rightarrow> ('a, 'x) M" where
  "raiseM e = (\<lambda>w. (Inl e, w))"

definition bindM :: "('a, 'x) M \<Rightarrow> ('a \<Rightarrow> ('b, 'x) M) \<Rightarrow> ('b, 'x) M" where
  "bindM m f = (\<lambda>w. case m w of (Inl e, w') \<Rightarrow> (Inl e, w') | (Inr a, w') \<Rightarrow> f a w')"

definition logger_info :: "logentry \<Rightarrow> (unit, 'x) M" where
  "logger_info l = (\<lambda>w. (Inr (), w\<lparr>logged := logged w @ [l]\<rparr>))"

definition logger_warning :: "logentry \<Rightarrow> (unit, 'x) M" where
  "logger_warning l = (\<lambda>w. (Inr (), w\<lparr>logged := logged w @ [l]\<rparr>))"

subsection \<open>The imported collaborators\<close>

text \<open>
  The names the file imports and does not define: \<open>is_official_hub_path\<close> and \<open>is_model\<close>
  (from \<open>.util\<close>), \<open>osp.exists\<close>, \<open>snapshot_download\<close>, \<open>Model.from_pretrained\<close>,
  \<open>Config.from_file\<close>, the table \<open>TASK_OUTPUTS\<close> (from \<open>.outputs\<close>) and the call
  \<open>obj(inputs, **params)\<close> of a preprocessor or model object.  The three tests only read
  the state of the collaborators; the others may change the world and may raise.
\<close>

record 'x env =
  is_official_hub_path :: "string \<Rightarrow> 'x \<Rightarrow> bool"
  osp_exists :: "string \<Rightarrow> 'x \<Rightarrow> bool"
  is_model :: "string \<Rightarrow> 'x \<Rightarrow> bool"
  snapshot_download :: "string \<Rightarrow> (string, 'x) M"
  Model_from_pretrained :: "string \<Rightarrow> (nat, 'x) M"
  Config_from_file :: "string \<Rightarrow> (pyval, 'x) M"
  TASK_OUTPUTS :: "string \<rightharpoonup> string list"
  call_object :: "pyval \<Rightarrow> pyval \<Rightarrow> params \<Rightarrow> (pyval, 'x) M"

subsection \<open>Model resolution\<close>

text \<open>\<open>isinstance(model, str) and is_official_hub_path(model)\<close>.\<close>

fun is_hub_str :: "'x env \<Rightarrow> pyval \<Rightarrow> 'x \<Rightarrow> bool" where
  "is_hub_str env (PStr s) x = is_official_hub_path env s x"
| "is_hub_str env v x = False"

text \<open>The first branch of \<open>initiate_single_model\<close>, on the string \<open>s\<close>:
  \<open>model = snapshot_download(model) if not osp.exists(model) else model\<close>, then
  \<open>return Model.from_pretrained(model) if is_model(model) else model\<close>.\<close>

definition initiate_from_hub :: "'x env \<Rightarrow> string \<Rightarrow> (pyval, 'x) M" where
  "initiate_from_hub env s =
     bindM (\<lambda>w. if \<not> osp_exists env s (ext w) then snapshot_download env s w else returnM s w)
       (\<lambda>p w. if is_model env p (ext w)
               then bindM (Model_from_pretrained env p) (\<lambda>i. returnM (PModel i)) w
               else returnM (PStr p) w)"

definition initiate_single_model :: "'x env \<Rightarrow> pyval \<Rightarrow> (pyval, 'x) M" where
  "initiate_single_model env mdl =
     bindM (logger_info (Info_initiate_model mdl))
       (\<lambda>_ w. if is_hub_str env mdl (ext w) then
                 (case mdl of PStr s \<Rightarrow> initiate_from_hub env s w | _ \<Rightarrow> returnM mdl w)
               else if isinstance_Model mdl then returnM mdl w
               else if truthy mdl \<and> \<not> isinstance_str mdl
                    then raiseM (ValueError_model_type (type_name mdl)) w
                    else returnM mdl w)"

text \<open>\<open>initiate_multiple_models\<close>: the loop appends each resolved model to \<open>models\<close>.\<close>

fun initiate_models_loop :: "'x env \<Rightarrow> pyval list \<Rightarrow> pyval list \<Rightarrow> (pyval list, 'x) M" where
  "initiate_models_loop env [] acc = returnM acc"
| "initiate_models_loop env (mdl # rest) acc =
     bindM (initiate_single_model env mdl) (\<lambda>m. initiate_models_loop env rest (acc @ [m]))"

definition initiate_multiple_models :: "'x env \<Rightarrow> pyval list \<Rightarrow> (pyval list, 'x) M" where
  "initiate_multiple_models env input_models = initiate_models_loop env input_models []"

subsection \<open>The pipeline object and its construction\<close>

text \<open>
  The attributes \<open>__init__\<close> assigns.  \<open>cfg\<close> is assigned only when a configuration file is
  given and \<open>model\<close> only on the branch for a single model, so both are optional: \<open>None\<close>
  is an attribute that was never assigned (reading it raises \<open>AttributeError\<close>), while
  \<open>Some PNone\<close> is an attribute holding Python's \<open>None\<close>.
\<close>

record pipeline =
  cfg :: "pyval option"
  model :: "pyval option"
  models :: "pyval list"
  has_multiple_models :: bool
  preprocessor :: pyval

definition pipeline_init ::
  "'x env \<Rightarrow> string option \<Rightarrow> pyval \<Rightarrow> pyval \<Rightarrow> (pipeline, 'x) M" where
  "pipeline_init env config_file mdl prep =
     bindM (case config_file of
              None \<Rightarrow> returnM None
            | Some f \<Rightarrow> bindM (Config_from_file env f) (\<lambda>c. returnM (Some c)))
       (\<lambda>c. bindM (case mdl of
                      PList input_models \<Rightarrow>
                        bindM (initiate_multiple_models env input_models)
                          (\<lambda>ms. returnM (None, ms))
                    | _ \<Rightarrow>
                        bindM (initiate_single_model env mdl)
                          (\<lambda>m. returnM (Some m, [m])))
               (\<lambda>(m, ms). returnM
                  \<lparr>cfg = c, model = m, models = ms,
                   has_multiple_models = (length ms > 1), preprocessor = prep\<rparr>))"

subsection \<open>The methods\<close>

text \<open>
  A concrete pipeline is a subclass: it must define \<open>postprocess\<close>, may override
  \<open>_sanitize_parameters\<close>, \<open>preprocess\<close> and \<open>forward\<close>, and carries the task name
  \<open>group_key\<close> that the registry attaches to the class (absent when the class was never
  registered).
\<close>

record 'x pipeline_class =
  group_key :: "string option"
  m_sanitize_parameters :: "pipeline \<Rightarrow> params \<Rightarrow> (params \<times> params \<times> params, 'x) M"
  m_preprocess :: "pipeline \<Rightarrow> pyval \<Rightarrow> params \<Rightarrow> (pyval, 'x) M"
  m_forward :: "pipeline \<Rightarrow> pyval \<Rightarrow> params \<Rightarrow> (pyval, 'x) M"
  m_postprocess :: "pipeline \<Rightarrow> pyval \<Rightarrow> params \<Rightarrow> (outdict, 'x) M"

text \<open>The bodies the base class gives.\<close>

definition sanitize_parameters ::
  "pipeline \<Rightarrow> params \<Rightarrow> (params \<times> params \<times> params, 'x) M" where
  "sanitize_parameters self pipeline_parameters = returnM ([], [], pipeline_parameters)"

definition preprocess :: "'x env \<Rightarrow> pipeline \<Rightarrow> pyval \<Rightarrow> params \<Rightarrow> (pyval, 'x) M" where
  "preprocess env self inputs preprocess_params =
     (if preprocessor self = PNone
      then raiseM (AssertionError ''preprocess method should be implemented'')
      else if isinstance_list (preprocessor self)
      then raiseM (AssertionError
             ''default implementation does not support using multiple preprocessors.'')
      else call_object env (preprocessor self) inputs preprocess_params)"

definition forward :: "'x env \<Rightarrow> pipeline \<Rightarrow> pyval \<Rightarrow> params \<Rightarrow> (pyval, 'x) M" where
  "forward env self inputs forward_params =
     (case model self of
        None \<Rightarrow> raiseM (AttributeError ''model'')
      | Some m \<Rightarrow>
          if m = PNone
          then raiseM (AssertionError ''forward method should be implemented'')
          else if has_multiple_models self
          then raiseM (AssertionError
                 ''default implementation does not support multiple models in a pipeline.'')
          else call_object env m inputs forward_params)"

text \<open>The class that overrides nothing but the abstract \<open>postprocess\<close>.\<close>

definition Pipeline ::
  "'x env \<Rightarrow> string option \<Rightarrow> (pipeline \<Rightarrow> pyval \<Rightarrow> params \<Rightarrow> (outdict, 'x) M)
     \<Rightarrow> 'x pipeline_class" where
  "Pipeline env task post =
     \<lparr>group_key = task,
      m_sanitize_parameters = sanitize_parameters,
      m_preprocess = preprocess env,
      m_forward = forward env,
      m_postprocess = post\<rparr>"

subsection \<open>Output validation\<close>

text \<open>The loop of \<open>_check_output\<close>: \<open>for k in output_keys: if k not in input:
  missing_keys.append(k)\<close>.\<close>

fun collect_missing :: "string list \<Rightarrow> outdict \<Rightarrow> string list \<Rightarrow> string list" where
  "collect_missing [] inp missing_keys = missing_keys"
| "collect_missing (k # ks) inp missing_keys =
     (if k \<notin> set (map fst inp)
      then collect_missing ks inp (missing_keys @ [k])
      else collect_missing ks inp missing_keys)"

definition check_output :: "'x env \<Rightarrow> 'x pipeline_class \<Rightarrow> outdict \<Rightarrow> (unit, 'x) M" where
  "check_output env cls inp =
     (case group_key cls of
        None \<Rightarrow> raiseM (AttributeError ''group_key'')
      | Some task_name \<Rightarrow>
          (case TASK_OUTPUTS env task_name of
             None \<Rightarrow> logger_warning (Warning_output_keys_missing task_name)
           | Some output_keys \<Rightarrow>
               (let missing_keys = collect_missing output_keys inp []
                in if length missing_keys > 0
                   then raiseM (ValueError_missing_keys output_keys missing_keys)
                   else returnM ())))"

subsection \<open>Processing\<close>

text \<open>\<open>_process_single\<close>; the positional \<open>*args\<close> are accepted and not used.\<close>

definition process_single ::
  "'x env \<Rightarrow> 'x pipeline_class \<Rightarrow> pipeline \<Rightarrow> pyval \<Rightarrow> pyval list \<Rightarrow> params
     \<Rightarrow> (outdict, 'x) M" where
  "process_single env cls self inp args kwargs =
     bindM (m_sanitize_parameters cls self kwargs)
       (\<lambda>(preprocess_params, forward_params, postprocess_params).
          bindM (m_preprocess cls self inp preprocess_params)
            (\<lambda>out1. bindM (m_forward cls self out1 forward_params)
               (\<lambda>out2. bindM (m_postprocess cls self out2 postprocess_params)
                  (\<lambda>out3. bindM (check_output env cls out3) (\<lambda>_. returnM out3)))))"

text \<open>The loop of the list branch of \<open>__call__\<close>: \<open>output.append(self._process_single(ele,
  ...))\<close> for each element.\<close>

fun process_list ::
  "'x env \<Rightarrow> 'x pipeline_class \<Rightarrow> pipeline \<Rightarrow> pyval list \<Rightarrow> pyval list \<Rightarrow> params
     \<Rightarrow> outdict list \<Rightarrow> (outdict list, 'x) M" where
  "process_list env cls self [] args kwargs output = returnM output"
| "process_list env cls self (ele # rest) args kwargs output =
     bindM (process_single env cls self ele args kwargs)
       (\<lambda>out. process_list env cls self rest args kwargs (output @ [out]))"

text \<open>
  \<open>_process_iterator\<close> is a generator function: calling it runs nothing and returns a
  generator object.  The object is either suspended, holding the items of the dataset not
  yet consumed together with the arguments, or exhausted (after the loop has ended or an
  exception has left the body).
\<close>

datatype generator =
    Suspended "pyval list" "pyval list" params
  | Exhausted

definition process_iterator :: "pyval list \<Rightarrow> pyval list \<Rightarrow> params \<Rightarrow> generator" where
  "process_iterator ds args kwargs = Suspended ds args kwargs"

text \<open>
  An exception that leaves the body of a generator reaches the caller of \<open>next\<close> as it
  is, except \<open>StopIteration\<close>: the interpreter replaces it by a \<open>RuntimeError\<close>, so that it
  cannot be taken for the end of the sequence.
\<close>

fun generator_error :: "error \<Rightarrow> error" where
  "generator_error StopIteration = RuntimeError_generator_raised_StopIteration"
| "generator_error e = e"

text \<open>\<open>next(g)\<close>: resume the body up to the next \<open>yield\<close>.  \<open>StopIteration\<close> is the
  answer of a generator whose loop has ended, or that was ended by an exception before.\<close>

fun gen_next ::
  "'x env \<Rightarrow> 'x pipeline_class \<Rightarrow> pipeline \<Rightarrow> generator \<Rightarrow> 'x world
     \<Rightarrow> (error + outdict) \<times> generator \<times> 'x world" where
  "gen_next env cls self Exhausted w = (Inl StopIteration, Exhausted, w)"
| "gen_next env cls self (Suspended [] args kwargs) w = (Inl StopIteration, Exhausted, w)"
| "gen_next env cls self (Suspended (ele # rest) args kwargs) w =
     (case process_single env cls self ele args kwargs w of
        (Inl e, w') \<Rightarrow> (Inl (generator_error e), Exhausted, w')
      | (Inr out, w') \<Rightarrow> (Inr out, Suspended rest args kwargs, w'))"

text \<open>A consumer that pulls \<open>n\<close> items, one \<open>next\<close> after the other, and stops at the first
  exception.\<close>

fun pull ::
  "'x env \<Rightarrow> 'x pipeline_class \<Rightarrow> pipeline \<Rightarrow> nat \<Rightarrow> generator \<Rightarrow> 'x world
     \<Rightarrow> (error + outdict list) \<times> generator \<times> 'x world" where
  "pull env cls self 0 g w = (Inr [], g, w)"
| "pull env cls self (Suc n) g w =
     (case gen_next env cls self g w of
        (Inl e, g', w') \<Rightarrow> (Inl e, g', w')
      | (Inr out, g', w') \<Rightarrow>
          (case pull env cls self n g' w' of
             (Inl e, g'', w'') \<Rightarrow> (Inl e, g'', w'')
           | (Inr outs, g'', w'') \<Rightarrow> (Inr (out # outs), g'', w'')))"

text \<open>What \<open>__call__\<close> returns: one result dictionary, a list of them, or a generator.\<close>

datatype call_result =
    Single outdict
  | Batch "outdict list"
  | Stream generator

definition pipeline_call ::
  "'x env \<Rightarrow> 'x pipeline_class \<Rightarrow> pipeline \<Rightarrow> pyval \<Rightarrow> pyval list \<Rightarrow> params
     \<Rightarrow> (call_result, 'x) M" where
  "pipeline_call env cls self inp args kwargs =
     (case inp of
        PList eles \<Rightarrow>
          bindM (process_list env cls self eles args kwargs []) (\<lambda>output. returnM (Batch output))
      | PDataset ds \<Rightarrow> returnM (Stream (process_iterator ds args kwargs))
      | _ \<Rightarrow>
          bindM (process_single env cls self inp args kwargs) (\<lambda>output. returnM (Single output)))"

subsection \<open>A concrete pipeline\<close>

text \<open>
  One instance of the collaborators, to run the definitions on: the hub knows the single
  identifier \<open>damo/demo\<close>, nothing is cached locally, a download counts up the external
  state, the registry knows the task \<open>demo-task\<close> with the keys \<open>scores\<close> and \<open>labels\<close>, a
  model wraps its input in a dictionary, and any other object (a preprocessor) wraps its
  input in a tuple but rejects negative integers and lets a \<open>StopIteration\<close> escape on
  \<open>None\<close>; the configuration parser fails on the file \<open>missing.json\<close>.
\<close>

definition ex_call_object :: "pyval \<Rightarrow> pyval \<Rightarrow> params \<Rightarrow> (pyval, nat) M" where
  "ex_call_object f x kw =
     (case f of
        PModel i \<Rightarrow> (\<lambda>w. (Inr (PDict [(''logits'', x)]), w\<lparr>ext := Suc (ext w)\<rparr>))
      | PObject i \<Rightarrow>
          (case x of
             PInt n \<Rightarrow> if n < 0 then raiseM (Raised 1) else returnM (PTuple [x])
           | PNone \<Rightarrow> raiseM StopIteration
           | _ \<Rightarrow> returnM (PTuple [x]))
      | _ \<Rightarrow> raiseM TypeError_not_callable)"

definition ex_env :: "nat env" where
  "ex_env =
     \<lparr>is_official_hub_path = (\<lambda>s x. s = ''damo/demo''),
      osp_exists = (\<lambda>s x. False),
      is_model = (\<lambda>s x. True),
      snapshot_download = (\<lambda>s w. (Inr (''/cache/'' @ s), w\<lparr>ext := Suc (ext w)\<rparr>)),
      Model_from_pretrained = (\<lambda>p. returnM 7),
      Config_from_file =
        (\<lambda>f. if f = ''missing.json'' then raiseM (Raised 2) else returnM (PObject 0)),
      TASK_OUTPUTS = [''demo-task'' \<mapsto> [''scores'', ''labels'']],
      call_object = ex_call_object\<rparr>"

definition ex_world :: "nat world" where
  "ex_world = \<lparr>logged = [], ext = 0\<rparr>"

definition ex_postprocess :: "pipeline \<Rightarrow> pyval \<Rightarrow> params \<Rightarrow> (outdict, nat) M" where
  "ex_postprocess self inputs postprocess_params =
     returnM ([(''scores'', inputs), (''labels'', PList [])] @ postprocess_params)"

definition ex_class :: "nat pipeline_class" where
  "ex_class = Pipeline ex_env (Some ''demo-task'') ex_postprocess"

definition ex_unregistered_class :: "nat pipeline_class" where
  "ex_unregistered_class = Pipeline ex_env (Some ''other-task'') ex_postprocess"

definition ex_pipeline :: pipeline where
  "ex_pipeline =
     \<lparr>cfg = None, model = Some (PModel 7), models = [PModel 7],
      has_multiple_models = False, preprocessor = PObject 1\<rparr>"

section \<open>Properties\<close>

lemmas M_defs = bindM_def returnM_def raiseM_def logger_info_def logger_warning_def

lemmas ex_defs =
  ex_env_def ex_world_def ex_class_def ex_unregistered_class_def ex_pipeline_def
  ex_postprocess_def ex_call_object_def Pipeline_def
  sanitize_parameters_def preprocess_def forward_def

subsection \<open>Model resolution\<close>

text \<open>
  Claim C10.  \<open>initiate_single_model\<close> is the identity on an argument that is an instance
  of \<open>Model\<close>, and on a falsy argument (\<open>None\<close>, \<open>False\<close>, \<open>0\<close>, an empty container, the
  empty string) that the first branch does not take: it returns the very same value, and
  the only effect is the line it logs, so nothing is downloaded or loaded.  The first
  branch can take no falsy value but the empty string, and only if the hub test accepts it.
\<close>

theorem initiate_single_model_identity:
  assumes "isinstance_Model mdl \<or> (\<not> truthy mdl \<and> \<not> is_hub_str env mdl (ext w))"
  shows "initiate_single_model env mdl w =
           (Inr mdl, w\<lparr>logged := logged w @ [Info_initiate_model mdl]\<rparr>)"
  using assms by (cases mdl) (auto simp: initiate_single_model_def M_defs)

theorem initiate_single_model_identity_witness:
  "isinstance_Model (PModel 3)
   \<and> \<not> truthy PNone \<and> \<not> is_hub_str ex_env PNone (ext ex_world)
   \<and> \<not> truthy (PStr []) \<and> \<not> is_hub_str ex_env (PStr []) (ext ex_world)
   \<and> initiate_single_model ex_env (PModel 3) ex_world =
       (Inr (PModel 3), \<lparr>logged = [Info_initiate_model (PModel 3)], ext = 0\<rparr>)
   \<and> initiate_single_model ex_env PNone ex_world =
       (Inr PNone, \<lparr>logged = [Info_initiate_model PNone], ext = 0\<rparr>)
   \<and> initiate_single_model ex_env (PStr []) ex_world =
       (Inr (PStr []), \<lparr>logged = [Info_initiate_model (PStr [])], ext = 0\<rparr>)"
  using initiate_single_model_identity [of "PModel 3" ex_env ex_world]
    initiate_single_model_identity [of PNone ex_env ex_world]
    initiate_single_model_identity [of "PStr []" ex_env ex_world]
  by (simp add: ex_world_def ex_env_def)




subsection \<open>Construction\<close>

lemma pipeline_init_has_multiple_models:
  assumes "pipeline_init env config_file mdl prep w = (Inr p, w')"
  shows "has_multiple_models p = (length (models p) > 1)"
  using assms
  by (cases mdl;
      auto simp: pipeline_init_def M_defs split: option.splits prod.splits sum.splits)

lemma pipeline_init_list_model_unassigned:
  assumes "pipeline_init env config_file (PList ms) prep w = (Inr p, w')"
  shows "model p = None"
  using assms
  by (auto simp: pipeline_init_def M_defs split: option.splits prod.splits sum.splits)

text \<open>
  Claim C7, amended.  After a successful construction, the list \<open>models\<close> holds an entry
  other than \<open>None\<close> only if a model argument other than \<open>None\<close> was supplied; with no
  model argument the list is not empty but the one-element list \<open>[None]\<close>, and the
  reference \<open>model\<close> is \<open>None\<close>.
\<close>

theorem pipeline_init_models_supplied:
  assumes "pipeline_init env config_file mdl prep w = (Inr p, w')"
  shows "(mdl = PNone \<longrightarrow> models p = [PNone] \<and> model p = Some PNone)
         \<and> ((\<exists>m\<in>set (models p). m \<noteq> PNone) \<longrightarrow> mdl \<noteq> PNone)"
  using assms
  by (auto simp: pipeline_init_def initiate_single_model_def M_defs
           split: option.splits prod.splits sum.splits)

theorem pipeline_init_models_supplied_witness:
  "pipeline_init ex_env None PNone PNone ex_world =
     (Inr \<lparr>cfg = None, model = Some PNone, models = [PNone],
           has_multiple_models = False, preprocessor = PNone\<rparr>,
      \<lparr>logged = [Info_initiate_model PNone], ext = 0\<rparr>)
   \<and> pipeline_init ex_env None (PModel 3) PNone ex_world =
     (Inr \<lparr>cfg = None, model = Some (PModel 3), models = [PModel 3],
           has_multiple_models = False, preprocessor = PNone\<rparr>,
      \<lparr>logged = [Info_initiate_model (PModel 3)], ext = 0\<rparr>)
   \<and> (\<exists>m\<in>set [PModel 3]. m \<noteq> PNone) \<and> PModel 3 \<noteq> PNone"
proof -
  have a: "pipeline_init ex_env None PNone PNone ex_world =
     (Inr \<lparr>cfg = None, model = Some PNone, models = [PNone],
           has_multiple_models = False, preprocessor = PNone\<rparr>,
      \<lparr>logged = [Info_initiate_model PNone], ext = 0\<rparr>)"
    by (simp add: pipeline_init_def initiate_single_model_def M_defs ex_env_def ex_world_def)
  have b: "pipeline_init ex_env None (PModel 3) PNone ex_world =
     (Inr \<lparr>cfg = None, model = Some (PModel 3), models = [PModel 3],
           has_multiple_models = False, preprocessor = PNone\<rparr>,
      \<lparr>logged = [Info_initiate_model (PModel 3)], ext = 0\<rparr>)"
    by (simp add: pipeline_init_def initiate_single_model_def M_defs ex_env_def ex_world_def)
  show ?thesis
    using a b pipeline_init_models_supplied [OF a] pipeline_init_models_supplied [OF b]
    by simp
qed

text \<open>
  Claim C7 as stated fails: constructing a pipeline with no model argument leaves the
  list \<open>models\<close> equal to \<open>[None]\<close>, which has length one.
\<close>

theorem no_model_argument_counterexample:
  "map_sum id (\<lambda>p. (models p, length (models p)))
     (fst (pipeline_init ex_env None PNone PNone ex_world)) = Inr ([PNone], 1)"
  by (simp add: pipeline_init_def initiate_single_model_def M_defs ex_env_def ex_world_def)

text \<open>
  Claim C8, amended.  When the model argument is supplied bare (not as a list), after a
  successful construction the reference \<open>model\<close> is assigned, the list \<open>models\<close> holds
  exactly that one value, so the reference equals the first element of the list, and the
  pipeline is not in multi-model mode.
\<close>

theorem pipeline_init_single_reference:
  assumes "\<not> isinstance_list mdl"
    and "pipeline_init env config_file mdl prep w = (Inr p, w')"
  shows "\<exists>m. model p = Some m \<and> models p = [m] \<and> hd (models p) = m
             \<and> \<not> has_multiple_models p"
  using assms
  by (cases mdl;
      auto simp: pipeline_init_def M_defs split: option.splits prod.splits sum.splits)

theorem pipeline_init_single_reference_witness:
  "\<not> isinstance_list (PStr ''damo/demo'')
   \<and> pipeline_init ex_env None (PStr ''damo/demo'') PNone ex_world =
     (Inr \<lparr>cfg = None, model = Some (PModel 7), models = [PModel 7],
           has_multiple_models = False, preprocessor = PNone\<rparr>,
      \<lparr>logged = [Info_initiate_model (PStr ''damo/demo'')], ext = 1\<rparr>)
   \<and> (\<exists>m. Some (PModel 7) = Some m \<and> [PModel 7] = [m] \<and> hd [PModel 7] = m)"
proof -
  have a: "\<not> isinstance_list (PStr ''damo/demo'')" by simp
  have b: "pipeline_init ex_env None (PStr ''damo/demo'') PNone ex_world =
     (Inr \<lparr>cfg = None, model = Some (PModel 7), models = [PModel 7],
           has_multiple_models = False, preprocessor = PNone\<rparr>,
      \<lparr>logged = [Info_initiate_model (PStr ''damo/demo'')], ext = 1\<rparr>)"
    by (simp add: pipeline_init_def initiate_single_model_def initiate_from_hub_def
                  M_defs ex_env_def ex_world_def)
  show ?thesis
    using a b pipeline_init_single_reference [OF a b] by simp
qed

text \<open>
  Claim C8 as stated fails: constructing with a one-element list gives a pipeline whose
  list \<open>models\<close> holds one model while the reference \<open>model\<close> was never assigned.
\<close>

theorem one_element_list_counterexample:
  "map_sum id (\<lambda>p. (model p, models p))
     (fst (pipeline_init ex_env None (PList [PModel 3]) PNone ex_world))
   = Inr (None, [PModel 3])"
  by (simp add: pipeline_init_def initiate_multiple_models_def initiate_single_model_def
                M_defs ex_env_def ex_world_def)

subsection \<open>The default forward\<close>

text \<open>When the reference \<open>model\<close> is assigned, the two assertions decide.\<close>

lemma forward_assigned:
  assumes "model self = Some m"
  shows "forward env self inputs forward_params w =
           (if m = PNone
            then (Inl (AssertionError ''forward method should be implemented''), w)
            else if has_multiple_models self
            then (Inl (AssertionError
                   ''default implementation does not support multiple models in a pipeline.''), w)
            else call_object env m inputs forward_params w)"
  using assms by (simp add: forward_def raiseM_def)

text \<open>When it was never assigned, reading it fails before any assertion is reached; that
  is the state every construction from a list leaves.\<close>

lemma forward_unassigned:
  assumes "model self = None"
  shows "forward env self inputs forward_params w = (Inl (AttributeError ''model''), w)"
  using assms by (simp add: forward_def raiseM_def)

lemma forward_after_list_construction:
  assumes "pipeline_init env config_file (PList ms) prep w = (Inr p, w')"
  shows "forward env p inputs forward_params v = (Inl (AttributeError ''model''), v)"
  using pipeline_init_list_model_unassigned [OF assms] by (rule forward_unassigned)

text \<open>
  Claim C5, at the input where the code departs from it.  A pipeline constructed from the
  list of two models is in multi-model mode, and the default \<open>forward\<close> on it fails, but
  with the \<open>AttributeError\<close> of reading the unassigned \<open>model\<close>, not with the assertion
  about multiple models.
\<close>

theorem forward_multi_model_attribute_error:
  "map_sum id (\<lambda>p. (model p, models p, has_multiple_models p))
     (fst (pipeline_init ex_env None (PList [PModel 1, PModel 2]) PNone ex_world))
     = Inr (None, [PModel 1, PModel 2], True)
   \<and> fst (bindM (pipeline_init ex_env None (PList [PModel 1, PModel 2]) PNone)
             (\<lambda>self. forward ex_env self (PInt 0) []) ex_world)
     = Inl (AttributeError ''model'')"
  by (simp add: pipeline_init_def initiate_multiple_models_def initiate_single_model_def
                forward_def M_defs ex_env_def ex_world_def)

subsection \<open>Output validation\<close>

lemma collect_missing_filter:
  "collect_missing ks inp acc = acc @ filter (\<lambda>k. k \<notin> fst ` set inp) ks"
  by (induction ks arbitrary: acc) auto

text \<open>
  Claim C3.  For a pipeline whose class carries a task name, \<open>_check_output\<close> raises if
  and only if the task is registered in \<open>TASK_OUTPUTS\<close> and some required key is not a key
  of the result; the error then carries the required keys and exactly the absent ones, in
  the order of the registry, and the world is untouched.  For an unregistered task it
  returns normally whatever the keys of the result are, and the warning is the last line
  of the log.
\<close>

theorem check_output_validation:
  assumes "group_key cls = Some task"
  shows "((\<exists>e. fst (check_output env cls out w) = Inl e) \<longleftrightarrow>
           (\<exists>keys. TASK_OUTPUTS env task = Some keys \<and> (\<exists>k\<in>set keys. k \<notin> fst ` set out)))
       \<and> (\<forall>keys. TASK_OUTPUTS env task = Some keys \<and> (\<exists>k\<in>set keys. k \<notin> fst ` set out) \<longrightarrow>
            check_output env cls out w =
              (Inl (ValueError_missing_keys keys (filter (\<lambda>k. k \<notin> fst ` set out) keys)), w))
       \<and> (TASK_OUTPUTS env task = None \<longrightarrow>
            check_output env cls out w =
              (Inr (), w\<lparr>logged := logged w @ [Warning_output_keys_missing task]\<rparr>))"
  using assms
  by (auto simp: check_output_def M_defs collect_missing_filter filter_empty_conv Let_def
           split: option.splits)

theorem check_output_validation_witness:
  "group_key ex_class = Some ''demo-task''
   \<and> TASK_OUTPUTS ex_env ''demo-task'' = Some [''scores'', ''labels'']
   \<and> (\<exists>k\<in>set [''scores'', ''labels'']. k \<notin> fst ` set [(''scores'', PNone)])
   \<and> check_output ex_env ex_class [(''scores'', PNone)] ex_world =
       (Inl (ValueError_missing_keys [''scores'', ''labels''] [''labels'']), ex_world)
   \<and> group_key ex_unregistered_class = Some ''other-task''
   \<and> TASK_OUTPUTS ex_env ''other-task'' = None
   \<and> check_output ex_env ex_unregistered_class [(''scores'', PNone)] ex_world =
       (Inr (), \<lparr>logged = [Warning_output_keys_missing ''other-task''], ext = 0\<rparr>)"
proof -
  have a: "group_key ex_class = Some ''demo-task''"
    by (simp add: ex_class_def Pipeline_def)
  have b: "group_key ex_unregistered_class = Some ''other-task''"
    by (simp add: ex_unregistered_class_def Pipeline_def)
  have c: "TASK_OUTPUTS ex_env ''demo-task'' = Some [''scores'', ''labels'']"
    and d: "TASK_OUTPUTS ex_env ''other-task'' = None"
    by (simp_all add: ex_env_def)
  show ?thesis
    using check_output_validation [OF a, of ex_env "[(''scores'', PNone)]" ex_world]
      check_output_validation [OF b, of ex_env "[(''scores'', PNone)]" ex_world]
    by (simp add: a b c d ex_world_def)
qed

subsection \<open>The single-item path\<close>

lemma sanitize_parameters_default:
  "sanitize_parameters self kwargs w = (Inr ([], [], kwargs), w)"
  by (simp add: sanitize_parameters_def returnM_def)

text \<open>
  Claim C1.  For an input that is neither a list nor a dataset, \<open>__call__\<close> returns
  normally exactly when the sanitizer splits the keyword arguments into three sets,
  \<open>preprocess\<close> succeeds on the input with the first, \<open>forward\<close> on its result with the
  second, \<open>postprocess\<close> on that result with the third, and the output check passes; what
  it returns is then the result of \<open>postprocess\<close> itself, not a list around it, and the
  world is the one those five steps leave, in that order.
\<close>

theorem pipeline_call_single:
  assumes "\<not> isinstance_list inp" and "\<not> isinstance_PyDataset inp"
  shows "pipeline_call env cls self inp args kwargs w = (Inr r, w') \<longleftrightarrow>
    (\<exists>pp fp qp w1 out1 w2 out2 w3 out3 w4.
       m_sanitize_parameters cls self kwargs w = (Inr (pp, fp, qp), w1) \<and>
       m_preprocess cls self inp pp w1 = (Inr out1, w2) \<and>
       m_forward cls self out1 fp w2 = (Inr out2, w3) \<and>
       m_postprocess cls self out2 qp w3 = (Inr out3, w4) \<and>
       check_output env cls out3 w4 = (Inr (), w') \<and>
       r = Single out3)"
  using assms
  by (cases inp;
      simp add: pipeline_call_def process_single_def M_defs split: prod.splits sum.splits;
      blast)

theorem pipeline_call_single_witness:
  "\<not> isinstance_list (PStr ''hi'') \<and> \<not> isinstance_PyDataset (PStr ''hi'')
   \<and> pipeline_call ex_env ex_class ex_pipeline (PStr ''hi'') [] [(''top_k'', PInt 1)] ex_world =
       (Inr (Single [(''scores'', PDict [(''logits'', PTuple [PStr ''hi''])]),
                     (''labels'', PList []), (''top_k'', PInt 1)]),
        \<lparr>logged = [], ext = 1\<rparr>)"
proof -
  have a: "\<not> isinstance_list (PStr ''hi'')" and b: "\<not> isinstance_PyDataset (PStr ''hi'')"
    by simp_all
  have "m_sanitize_parameters ex_class ex_pipeline [(''top_k'', PInt 1)] ex_world =
          (Inr ([], [], [(''top_k'', PInt 1)]), ex_world) \<and>
        m_preprocess ex_class ex_pipeline (PStr ''hi'') [] ex_world =
          (Inr (PTuple [PStr ''hi'']), ex_world) \<and>
        m_forward ex_class ex_pipeline (PTuple [PStr ''hi'']) [] ex_world =
          (Inr (PDict [(''logits'', PTuple [PStr ''hi''])]), \<lparr>logged = [], ext = 1\<rparr>) \<and>
        m_postprocess ex_class ex_pipeline (PDict [(''logits'', PTuple [PStr ''hi''])])
            [(''top_k'', PInt 1)] \<lparr>logged = [], ext = 1\<rparr> =
          (Inr [(''scores'', PDict [(''logits'', PTuple [PStr ''hi''])]),
                (''labels'', PList []), (''top_k'', PInt 1)], \<lparr>logged = [], ext = 1\<rparr>) \<and>
        check_output ex_env ex_class
            [(''scores'', PDict [(''logits'', PTuple [PStr ''hi''])]),
             (''labels'', PList []), (''top_k'', PInt 1)] \<lparr>logged = [], ext = 1\<rparr> =
          (Inr (), \<lparr>logged = [], ext = 1\<rparr>)"
    by (simp add: ex_defs check_output_def M_defs)
  then have "\<exists>pp fp qp w1 out1 w2 out2 w3 out3 w4.
       m_sanitize_parameters ex_class ex_pipeline [(''top_k'', PInt 1)] ex_world
         = (Inr (pp, fp, qp), w1) \<and>
       m_preprocess ex_class ex_pipeline (PStr ''hi'') pp w1 = (Inr out1, w2) \<and>
       m_forward ex_class ex_pipeline out1 fp w2 = (Inr out2, w3) \<and>
       m_postprocess ex_class ex_pipeline out2 qp w3 = (Inr out3, w4) \<and>
       check_output ex_env ex_class out3 w4 = (Inr (), \<lparr>logged = [], ext = 1\<rparr>) \<and>
       Single [(''scores'', PDict [(''logits'', PTuple [PStr ''hi''])]),
               (''labels'', PList []), (''top_k'', PInt 1)] = Single out3"
    by (elim conjE, intro exI conjI) (assumption | rule refl)+
  then have "pipeline_call ex_env ex_class ex_pipeline (PStr ''hi'') []
               [(''top_k'', PInt 1)] ex_world =
             (Inr (Single [(''scores'', PDict [(''logits'', PTuple [PStr ''hi''])]),
                           (''labels'', PList []), (''top_k'', PInt 1)]),
              \<lparr>logged = [], ext = 1\<rparr>)"
    by (rule iffD2 [OF pipeline_call_single [OF a b]])
  with a b show ?thesis by simp
qed

subsection \<open>The list path\<close>

text \<open>The accumulator of the loop only collects: it can be taken out.\<close>

lemma process_list_acc:
  "process_list env cls self xs args kw acc w =
     (case process_list env cls self xs args kw [] w of
        (Inl e, w') \<Rightarrow> (Inl e, w')
      | (Inr outs, w') \<Rightarrow> (Inr (acc @ outs), w'))"
proof (induction xs arbitrary: acc w)
  case Nil
  show ?case by (simp add: returnM_def)
next
  case (Cons x xs)
  show ?case
  proof (cases "process_single env cls self x args kw w")
    case (Pair r w1)
    show ?thesis
    proof (cases r)
      case (Inl e)
      with Pair show ?thesis by (simp add: bindM_def)
    next
      case (Inr out)
      have a: "process_list env cls self (x # xs) args kw acc w =
                 process_list env cls self xs args kw (acc @ [out]) w1"
        using Pair Inr by (simp add: bindM_def)
      have b: "process_list env cls self (x # xs) args kw [] w =
                 process_list env cls self xs args kw [out] w1"
        using Pair Inr by (simp add: bindM_def)
      show ?thesis
        unfolding a b
        by (subst Cons.IH [of "acc @ [out]"], subst Cons.IH [of "[out]"])
           (simp split: prod.splits sum.splits)
    qed
  qed
qed

lemma process_list_Cons:
  "process_list env cls self (x # xs) args kw [] w =
     (case process_single env cls self x args kw w of
        (Inl e, w1) \<Rightarrow> (Inl e, w1)
      | (Inr out, w1) \<Rightarrow>
          (case process_list env cls self xs args kw [] w1 of
             (Inl e, w') \<Rightarrow> (Inl e, w')
           | (Inr outs, w') \<Rightarrow> (Inr (out # outs), w')))"
  by (simp add: bindM_def process_list_acc [of _ _ _ _ _ _ "[_]"] split: prod.splits sum.splits)

lemma process_list_append:
  "process_list env cls self (xs @ ys) args kw [] w =
     (case process_list env cls self xs args kw [] w of
        (Inl e, w1) \<Rightarrow> (Inl e, w1)
      | (Inr outs, w1) \<Rightarrow> process_list env cls self ys args kw outs w1)"
proof (induction xs arbitrary: w)
  case Nil
  show ?case by (simp add: returnM_def)
next
  case (Cons x xs)
  show ?case
  proof (cases "process_single env cls self x args kw w")
    case s: (Pair r w1)
    show ?thesis
    proof (cases r)
      case (Inl e)
      with s show ?thesis by (simp add: process_list_Cons del: process_list.simps)
    next
      case (Inr out)
      show ?thesis
      proof (cases "process_list env cls self xs args kw [] w1")
        case t: (Pair r2 w2)
        show ?thesis
        proof (cases r2)
          case (Inl e)
          with s t \<open>r = Inr out\<close> show ?thesis
            by (simp add: process_list_Cons Cons.IH del: process_list.simps)
        next
          case outs: (Inr outs)
          have "(case process_list env cls self ys args kw outs w2 of
                   (Inl e, w') \<Rightarrow> (Inl e, w')
                 | (Inr os, w') \<Rightarrow> (Inr (out # os), w'))
                = process_list env cls self ys args kw (out # outs) w2"
            using process_list_acc [of env cls self ys args kw outs w2]
              process_list_acc [of env cls self ys args kw "out # outs" w2]
            by (simp split: prod.splits sum.splits)
          with s t \<open>r = Inr out\<close> outs show ?thesis
            by (simp add: process_list_Cons Cons.IH del: process_list.simps)
        qed
      qed
    qed
  qed
qed

text \<open>The loop returns normally exactly when the items succeed one after the other, each
  in the world its predecessor left.\<close>

lemma process_list_trace:
  "process_list env cls self xs args kw [] w = (Inr outs, w') \<longleftrightarrow>
     (\<exists>ws. length outs = length xs \<and> length ws = Suc (length xs) \<and>
           ws ! 0 = w \<and> ws ! length xs = w' \<and>
           (\<forall>i<length xs. process_single env cls self (xs ! i) args kw (ws ! i)
                            = (Inr (outs ! i), ws ! Suc i)))"
proof (induction xs arbitrary: w outs)
  case Nil
  show ?case
  proof
    assume "process_list env cls self [] args kw [] w = (Inr outs, w')"
    then have "outs = []" "w' = w" by (auto simp: returnM_def)
    then show "\<exists>ws. length outs = length ([]::pyval list) \<and> length ws = Suc (length ([]::pyval list)) \<and>
           ws ! 0 = w \<and> ws ! length ([]::pyval list) = w' \<and>
           (\<forall>i<length ([]::pyval list). process_single env cls self ([] ! i) args kw (ws ! i)
                            = (Inr (outs ! i), ws ! Suc i))"
      by (intro exI [of _ "[w]"]) simp
  next
    assume "\<exists>ws. length outs = length ([]::pyval list) \<and> length ws = Suc (length ([]::pyval list)) \<and>
           ws ! 0 = w \<and> ws ! length ([]::pyval list) = w' \<and>
           (\<forall>i<length ([]::pyval list). process_single env cls self ([] ! i) args kw (ws ! i)
                            = (Inr (outs ! i), ws ! Suc i))"
    then show "process_list env cls self [] args kw [] w = (Inr outs, w')"
      by (auto simp: returnM_def)
  qed
next
  case (Cons x xs)
  let ?R = "\<lambda>ys v os v' ws. length os = length ys \<and> length ws = Suc (length ys) \<and>
           ws ! 0 = v \<and> ws ! length ys = v' \<and>
           (\<forall>i<length ys. process_single env cls self (ys ! i) args kw (ws ! i)
                            = (Inr (os ! i), ws ! Suc i))"
  show ?case
  proof
    assume run: "process_list env cls self (x # xs) args kw [] w = (Inr outs, w')"
    then obtain out w1 outs' where
      s: "process_single env cls self x args kw w = (Inr out, w1)" and
      r: "process_list env cls self xs args kw [] w1 = (Inr outs', w')" and
      o: "outs = out # outs'"
      unfolding process_list_Cons by (auto split: prod.splits sum.splits)
    from r Cons.IH [of w1 outs'] obtain ws where ws: "?R xs w1 outs' w' ws" by blast
    have "?R (x # xs) w outs w' (w # ws)"
    proof (intro conjI allI impI)
      fix i assume "i < length (x # xs)"
      then show "process_single env cls self ((x # xs) ! i) args kw ((w # ws) ! i)
                   = (Inr (outs ! i), (w # ws) ! Suc i)"
        using s ws o by (cases i) auto
    qed (use ws o in auto)
    then show "\<exists>ws. ?R (x # xs) w outs w' ws" by blast
  next
    assume "\<exists>ws. ?R (x # xs) w outs w' ws"
    then obtain ws where ws: "?R (x # xs) w outs w' ws" by blast
    then obtain ws' where wsc: "ws = w # ws'" by (cases ws) auto
    from ws obtain out outs' where o: "outs = out # outs'" by (cases outs) auto
    have s: "process_single env cls self x args kw w = (Inr out, ws' ! 0)"
      using ws wsc o by (auto dest: spec [of _ 0])
    have "?R xs (ws' ! 0) outs' w' ws'"
    proof (intro conjI allI impI)
      fix i assume i: "i < length xs"
      with ws have "process_single env cls self ((x # xs) ! Suc i) args kw (ws ! Suc i)
                   = (Inr (outs ! Suc i), ws ! Suc (Suc i))"
        by (auto dest: spec [of _ "Suc i"])
      then show "process_single env cls self (xs ! i) args kw (ws' ! i)
                   = (Inr (outs' ! i), ws' ! Suc i)"
        using wsc o by simp
    qed (use ws wsc o in auto)
    then have "process_list env cls self xs args kw [] (ws' ! 0) = (Inr outs', w')"
      using Cons.IH [of "ws' ! 0" outs'] by blast
    then show "process_list env cls self (x # xs) args kw [] w = (Inr outs, w')"
      unfolding process_list_Cons using s o by simp
  qed
qed

text \<open>
  Claim C2.  On a list of length \<open>N\<close>, \<open>__call__\<close> returns normally exactly when the items
  can be processed one after the other, the \<open>i\<close>-th in the world \<open>ws ! i\<close> that the
  \<open>(i-1)\<close>-th left; it then returns a list of length \<open>N\<close> whose \<open>i\<close>-th element is the
  single-item result of the \<open>i\<close>-th input element.
\<close>

theorem pipeline_call_list:
  "pipeline_call env cls self (PList xs) args kwargs w = (Inr r, w') \<longleftrightarrow>
     (\<exists>outs ws. r = Batch outs \<and> length outs = length xs \<and> length ws = Suc (length xs) \<and>
           ws ! 0 = w \<and> ws ! length xs = w' \<and>
           (\<forall>i<length xs. process_single env cls self (xs ! i) args kwargs (ws ! i)
                            = (Inr (outs ! i), ws ! Suc i)))"
proof -
  have "pipeline_call env cls self (PList xs) args kwargs w = (Inr r, w') \<longleftrightarrow>
          (\<exists>outs. r = Batch outs \<and> process_list env cls self xs args kwargs [] w = (Inr outs, w'))"
    by (auto simp: pipeline_call_def M_defs split: prod.splits sum.splits)
  then show ?thesis
    unfolding process_list_trace by blast
qed

theorem pipeline_call_list_witness:
  "pipeline_call ex_env ex_class ex_pipeline (PList [PStr ''hi'', PInt 3]) [] [] ex_world =
     (Inr (Batch [[(''scores'', PDict [(''logits'', PTuple [PStr ''hi''])]), (''labels'', PList [])],
                  [(''scores'', PDict [(''logits'', PTuple [PInt 3])]), (''labels'', PList [])]]),
      \<lparr>logged = [], ext = 2\<rparr>)"
proof -
  have s1: "process_single ex_env ex_class ex_pipeline (PStr ''hi'') [] [] ex_world =
      (Inr [(''scores'', PDict [(''logits'', PTuple [PStr ''hi''])]), (''labels'', PList [])],
       \<lparr>logged = [], ext = 1\<rparr>)"
    by (simp add: process_single_def check_output_def ex_defs M_defs)
  have s2: "process_single ex_env ex_class ex_pipeline (PInt 3) [] [] \<lparr>logged = [], ext = 1\<rparr> =
      (Inr [(''scores'', PDict [(''logits'', PTuple [PInt 3])]), (''labels'', PList [])],
       \<lparr>logged = [], ext = 2\<rparr>)"
    by (simp add: process_single_def check_output_def ex_defs M_defs)
  have "\<exists>outs ws.
          Batch [[(''scores'', PDict [(''logits'', PTuple [PStr ''hi''])]), (''labels'', PList [])],
                 [(''scores'', PDict [(''logits'', PTuple [PInt 3])]), (''labels'', PList [])]]
            = Batch outs \<and>
          length outs = length [PStr ''hi'', PInt 3] \<and>
          length ws = Suc (length [PStr ''hi'', PInt 3]) \<and>
          ws ! 0 = ex_world \<and> ws ! length [PStr ''hi'', PInt 3] = \<lparr>logged = [], ext = 2\<rparr> \<and>
          (\<forall>i<length [PStr ''hi'', PInt 3].
              process_single ex_env ex_class ex_pipeline ([PStr ''hi'', PInt 3] ! i) [] [] (ws ! i)
                = (Inr (outs ! i), ws ! Suc i))"
    by (rule exI [of _ "[[(''scores'', PDict [(''logits'', PTuple [PStr ''hi''])]),
                          (''labels'', PList [])],
                         [(''scores'', PDict [(''logits'', PTuple [PInt 3])]),
                          (''labels'', PList [])]]"],
        rule exI [of _ "[ex_world, \<lparr>logged = [], ext = 1\<rparr>, \<lparr>logged = [], ext = 2\<rparr>]"])
       (use s1 s2 in \<open>simp add: All_less_Suc\<close>)
  then show ?thesis
    by (rule iffD2 [OF pipeline_call_list])
qed

text \<open>
  Claim C9.  When the items before \<open>x\<close> are processed normally and \<open>x\<close> raises, \<open>__call__\<close>
  on the whole list raises that same exception and returns no list; the world is the one
  the failing item left, so no later item was processed.
\<close>

theorem pipeline_call_list_aborts:
  assumes "pipeline_call env cls self (PList pre) args kwargs w = (Inr (Batch outs), w1)"
    and "process_single env cls self x args kwargs w1 = (Inl e, w2)"
  shows "pipeline_call env cls self (PList (pre @ x # post)) args kwargs w = (Inl e, w2)"
proof -
  from assms(1) have "process_list env cls self pre args kwargs [] w = (Inr outs, w1)"
    by (auto simp: pipeline_call_def M_defs split: prod.splits sum.splits)
  then have "process_list env cls self (pre @ x # post) args kwargs [] w = (Inl e, w2)"
    using assms(2) by (simp add: process_list_append bindM_def)
  then show ?thesis
    by (simp add: pipeline_call_def M_defs)
qed

theorem pipeline_call_list_aborts_witness:
  "pipeline_call ex_env ex_class ex_pipeline (PList [PStr ''hi'']) [] [] ex_world =
     (Inr (Batch [[(''scores'', PDict [(''logits'', PTuple [PStr ''hi''])]),
                   (''labels'', PList [])]]),
      \<lparr>logged = [], ext = 1\<rparr>)
   \<and> process_single ex_env ex_class ex_pipeline (PInt (- 3)) [] [] \<lparr>logged = [], ext = 1\<rparr> =
       (Inl (Raised 1), \<lparr>logged = [], ext = 1\<rparr>)
   \<and> pipeline_call ex_env ex_class ex_pipeline (PList [PStr ''hi'', PInt (- 3), PInt 4]) [] []
       ex_world = (Inl (Raised 1), \<lparr>logged = [], ext = 1\<rparr>)"
proof -
  have a: "pipeline_call ex_env ex_class ex_pipeline (PList [PStr ''hi'']) [] [] ex_world =
     (Inr (Batch [[(''scores'', PDict [(''logits'', PTuple [PStr ''hi''])]),
                   (''labels'', PList [])]]),
      \<lparr>logged = [], ext = 1\<rparr>)"
    by (simp add: pipeline_call_def process_single_def check_output_def ex_defs M_defs)
  have b: "process_single ex_env ex_class ex_pipeline (PInt (- 3)) [] []
             \<lparr>logged = [], ext = 1\<rparr> = (Inl (Raised 1), \<lparr>logged = [], ext = 1\<rparr>)"
    by (simp add: process_single_def check_output_def ex_defs M_defs)
  show ?thesis
    using a b pipeline_call_list_aborts [OF a b, of "[PInt 4]"] by simp
qed

subsection \<open>The dataset path\<close>

text \<open>Pulling \<open>k\<close> items from the generator does what the list loop does on the first \<open>k\<close>
  items of the dataset, and nothing more.\<close>

lemma pull_process_list:
  "k \<le> length ds \<Longrightarrow>
   pull env cls self k (Suspended ds args kw) w =
     (case process_list env cls self (take k ds) args kw [] w of
        (Inl e, w') \<Rightarrow> (Inl (generator_error e), Exhausted, w')
      | (Inr outs, w') \<Rightarrow> (Inr outs, Suspended (drop k ds) args kw, w'))"
proof (induction k arbitrary: ds w)
  case 0
  show ?case by (simp add: returnM_def)
next
  case (Suc k)
  then obtain x xs where ds: "ds = x # xs" by (cases ds) auto
  with Suc.prems have k: "k \<le> length xs" by simp
  show ?case
    unfolding ds
    by (simp add: process_list_Cons Suc.IH [OF k] del: process_list.simps
          split: prod.splits sum.splits)
qed

text \<open>
  Claim C4.  On a dataset, \<open>__call__\<close> returns a generator without running anything: the
  world is unchanged.  After \<open>k\<close> items have been pulled normally, the generator holds the
  items from the \<open>k\<close>-th on, the world is the one that processing the first \<open>k\<close> items
  alone leaves, and the next pull runs \<open>_process_single\<close> on the \<open>k\<close>-th item of the
  dataset in that world and yields its result, leaving the items after it unconsumed.
  When that item raises, the pull raises its exception (a \<open>RuntimeError\<close> in place of a
  \<open>StopIteration\<close>, as the interpreter does for a generator body) and the generator is
  ended.
\<close>

theorem pipeline_call_dataset_lazy:
  "pipeline_call env cls self (PDataset ds) args kwargs w = (Inr (Stream (Suspended ds args kwargs)), w)
   \<and> (k < length ds \<and> pull env cls self k (Suspended ds args kwargs) w = (Inr outs, g, wk) \<longrightarrow>
        g = Suspended (drop k ds) args kwargs \<and>
        process_list env cls self (take k ds) args kwargs [] w = (Inr outs, wk) \<and>
        gen_next env cls self g wk =
          (case process_single env cls self (ds ! k) args kwargs wk of
             (Inl e, w') \<Rightarrow> (Inl (generator_error e), Exhausted, w')
           | (Inr out, w') \<Rightarrow> (Inr out, Suspended (drop (Suc k) ds) args kwargs, w')))"
proof (intro conjI impI)
  show "pipeline_call env cls self (PDataset ds) args kwargs w = (Inr (Stream (Suspended ds args kwargs)), w)"
    by (simp add: pipeline_call_def process_iterator_def returnM_def)
next
  assume a: "k < length ds \<and> pull env cls self k (Suspended ds args kwargs) w = (Inr outs, g, wk)"
  then have k: "k \<le> length ds" by simp
  from a show g: "g = Suspended (drop k ds) args kwargs"
    unfolding pull_process_list [OF k] by (auto split: prod.splits sum.splits)
  from a show "process_list env cls self (take k ds) args kwargs [] w = (Inr outs, wk)"
    unfolding pull_process_list [OF k] by (auto split: prod.splits sum.splits)
  from a have "drop k ds = ds ! k # drop (Suc k) ds"
    by (simp add: Cons_nth_drop_Suc)
  then show "gen_next env cls self g wk =
          (case process_single env cls self (ds ! k) args kwargs wk of
             (Inl e, w') \<Rightarrow> (Inl (generator_error e), Exhausted, w')
           | (Inr out, w') \<Rightarrow> (Inr out, Suspended (drop (Suc k) ds) args kwargs, w'))"
    unfolding g by simp
qed


theorem pipeline_call_dataset_lazy_witness:
  "(1::nat) < length [PStr ''hi'', PInt 3, PNone, PInt 4]
   \<and> (2::nat) < length [PStr ''hi'', PInt 3, PNone, PInt 4]
   \<and> pipeline_call ex_env ex_class ex_pipeline (PDataset [PStr ''hi'', PInt 3, PNone, PInt 4]) [] []
       ex_world = (Inr (Stream (Suspended [PStr ''hi'', PInt 3, PNone, PInt 4] [] [])), ex_world)
   \<and> pull ex_env ex_class ex_pipeline 1 (Suspended [PStr ''hi'', PInt 3, PNone, PInt 4] [] [])
       ex_world =
       (Inr [[(''scores'', PDict [(''logits'', PTuple [PStr ''hi''])]), (''labels'', PList [])]],
        Suspended [PInt 3, PNone, PInt 4] [] [], \<lparr>logged = [], ext = 1\<rparr>)
   \<and> gen_next ex_env ex_class ex_pipeline (Suspended [PInt 3, PNone, PInt 4] [] [])
       \<lparr>logged = [], ext = 1\<rparr> =
       (Inr [(''scores'', PDict [(''logits'', PTuple [PInt 3])]), (''labels'', PList [])],
        Suspended [PNone, PInt 4] [] [], \<lparr>logged = [], ext = 2\<rparr>)
   \<and> pull ex_env ex_class ex_pipeline 2 (Suspended [PStr ''hi'', PInt 3, PNone, PInt 4] [] [])
       ex_world =
       (Inr [[(''scores'', PDict [(''logits'', PTuple [PStr ''hi''])]), (''labels'', PList [])],
             [(''scores'', PDict [(''logits'', PTuple [PInt 3])]), (''labels'', PList [])]],
        Suspended [PNone, PInt 4] [] [], \<lparr>logged = [], ext = 2\<rparr>)
   \<and> gen_next ex_env ex_class ex_pipeline (Suspended [PNone, PInt 4] [] [])
       \<lparr>logged = [], ext = 2\<rparr> =
       (Inl RuntimeError_generator_raised_StopIteration, Exhausted, \<lparr>logged = [], ext = 2\<rparr>)"
proof -
  have s1: "process_single ex_env ex_class ex_pipeline (PStr ''hi'') [] [] ex_world =
      (Inr [(''scores'', PDict [(''logits'', PTuple [PStr ''hi''])]), (''labels'', PList [])],
       \<lparr>logged = [], ext = 1\<rparr>)"
    by (simp add: process_single_def check_output_def ex_defs M_defs)
  have s2: "process_single ex_env ex_class ex_pipeline (PInt 3) [] [] \<lparr>logged = [], ext = 1\<rparr> =
      (Inr [(''scores'', PDict [(''logits'', PTuple [PInt 3])]), (''labels'', PList [])],
       \<lparr>logged = [], ext = 2\<rparr>)"
    by (simp add: process_single_def check_output_def ex_defs M_defs)
  have s3: "process_single ex_env ex_class ex_pipeline PNone [] [] \<lparr>logged = [], ext = 2\<rparr> =
      (Inl StopIteration, \<lparr>logged = [], ext = 2\<rparr>)"
    by (simp add: process_single_def check_output_def ex_defs M_defs)
  have p1: "pull ex_env ex_class ex_pipeline 1 (Suspended [PStr ''hi'', PInt 3, PNone, PInt 4] [] [])
       ex_world =
       (Inr [[(''scores'', PDict [(''logits'', PTuple [PStr ''hi''])]), (''labels'', PList [])]],
        Suspended [PInt 3, PNone, PInt 4] [] [], \<lparr>logged = [], ext = 1\<rparr>)"
    using s1 by simp
  have p2: "pull ex_env ex_class ex_pipeline 2 (Suspended [PStr ''hi'', PInt 3, PNone, PInt 4] [] [])
       ex_world =
       (Inr [[(''scores'', PDict [(''logits'', PTuple [PStr ''hi''])]), (''labels'', PList [])],
             [(''scores'', PDict [(''logits'', PTuple [PInt 3])]), (''labels'', PList [])]],
        Suspended [PNone, PInt 4] [] [], \<lparr>logged = [], ext = 2\<rparr>)"
    using s1 s2 by (simp add: numeral_2_eq_2)
  have a: "gen_next ex_env ex_class ex_pipeline (Suspended [PInt 3, PNone, PInt 4] [] [])
       \<lparr>logged = [], ext = 1\<rparr> =
       (Inr [(''scores'', PDict [(''logits'', PTuple [PInt 3])]), (''labels'', PList [])],
        Suspended [PNone, PInt 4] [] [], \<lparr>logged = [], ext = 2\<rparr>)"
    using p1 s2 pipeline_call_dataset_lazy
        [where env = ex_env and cls = ex_class and self = ex_pipeline
           and ds = "[PStr ''hi'', PInt 3, PNone, PInt 4]" and args = "[]" and kwargs = "[]"
           and w = ex_world and k = 1
           and outs = "[[(''scores'', PDict [(''logits'', PTuple [PStr ''hi''])]),
                         (''labels'', PList [])]]"
           and g = "Suspended [PInt 3, PNone, PInt 4] [] []"
           and wk = "\<lparr>logged = [], ext = 1\<rparr>"]
    by simp
  have b: "gen_next ex_env ex_class ex_pipeline (Suspended [PNone, PInt 4] [] [])
       \<lparr>logged = [], ext = 2\<rparr> =
       (Inl RuntimeError_generator_raised_StopIteration, Exhausted, \<lparr>logged = [], ext = 2\<rparr>)"
    using p2 s3 pipeline_call_dataset_lazy
        [where env = ex_env and cls = ex_class and self = ex_pipeline
           and ds = "[PStr ''hi'', PInt 3, PNone, PInt 4]" and args = "[]" and kwargs = "[]"
           and w = ex_world and k = 2
           and outs = "[[(''scores'', PDict [(''logits'', PTuple [PStr ''hi''])]),
                         (''labels'', PList [])],
                        [(''scores'', PDict [(''logits'', PTuple [PInt 3])]),
                         (''labels'', PList [])]]"
           and g = "Suspended [PNone, PInt 4] [] []"
           and wk = "\<lparr>logged = [], ext = 2\<rparr>"]
    by simp
  have c: "pipeline_call ex_env ex_class ex_pipeline
             (PDataset [PStr ''hi'', PInt 3, PNone, PInt 4]) [] [] ex_world =
           (Inr (Stream (Suspended [PStr ''hi'', PInt 3, PNone, PInt 4] [] [])), ex_world)"
    using pipeline_call_dataset_lazy
        [where env = ex_env and cls = ex_class and self = ex_pipeline
           and ds = "[PStr ''hi'', PInt 3, PNone, PInt 4]" and args = "[]" and kwargs = "[]"
           and w = ex_world]
    by simp
  show ?thesis
    using p1 p2 a b c by simp
qed

end
